theory Spec2Isabelle
  imports Complex_Main "HOL-Library.AList" "HOL-Library.Multiset"
begin

section \<open>Values exchanged with the oracle\<close>

text \<open>
  The scorer of \<^verbatim>\<open>template/validator/llm_scorer.py\<close> works on what
  \<^verbatim>\<open>json.loads\<close> returns. A Python dict is an association list (insertion order
  kept, \<^const>\<open>map_of\<close> reads it, \<^const>\<open>AList.update\<close> assigns a key in place or
  appends it). Python floats are idealised as reals: rounding, infinities and NaN are
  outside this development.
\<close>

datatype json =
    JNull
  | JBool bool
  | JNum real
  | JStr string
  | JArr "json list"
  | JObj "(string \<times> json) list"

type_synonym dict = "(string \<times> json) list"

text \<open>
  Exceptions of the Python run time that the scorer can meet. \<open>OracleError\<close> stands for
  whatever the client call or \<^verbatim>\<open>json.loads\<close> raises (network failure, timeout,
  unparseable content), with its message.
\<close>

datatype exn =
    TypeError json
  | ValueError string
  | KeyError string
  | IndexError
  | OracleError string

definition CRITERIA :: "string list" where
  "CRITERIA = [''comprehension'', ''technical_depth'', ''specificity'',
               ''constructiveness'', ''evidence_based'', ''professionalism'']"

definition CRITERIA_WEIGHTS :: "(string \<times> real) list" where
  "CRITERIA_WEIGHTS = [(''comprehension'', 20 / 100), (''technical_depth'', 25 / 100),
                       (''specificity'', 20 / 100), (''constructiveness'', 15 / 100),
                       (''evidence_based'', 15 / 100), (''professionalism'', 5 / 100)]"

text \<open>
  Python's \<^verbatim>\<open>float(x)\<close> on a decoded JSON value: numbers and booleans convert,
  a string converts when it spells a number (the run time's parser \<open>s2f\<close> is a
  parameter) and raises ValueError otherwise, None, lists and dicts raise TypeError.
\<close>

fun py_float :: "(string \<Rightarrow> real option) \<Rightarrow> json \<Rightarrow> exn + real" where
  "py_float s2f (JNum r) = Inr r"
| "py_float s2f (JBool b) = Inr (if b then 1 else 0)"
| "py_float s2f (JStr s) =
     (case s2f s of None \<Rightarrow> Inl (ValueError s) | Some r \<Rightarrow> Inr r)"
| "py_float s2f v = Inl (TypeError v)"

text \<open>
  The value of a dict entry used as a number in arithmetic (\<^verbatim>\<open>d[k] * w\<close>):
  numbers, and booleans as 0 and 1.
\<close>

fun num_val :: "json \<Rightarrow> real option" where
  "num_val (JNum r) = Some r"
| "num_val (JBool b) = Some (if b then 1 else 0)"
| "num_val v = None"

section \<open>The score aggregator\<close>

text \<open>
  \<^verbatim>\<open>_validate_and_aggregate\<close>, lines 169 to 187. The first loop rewrites the six
  criteria in the order of \<open>CRITERIA\<close> and stops at the first value \<^verbatim>\<open>float\<close>
  refuses.
\<close>

fun clamp_criteria :: "(string \<Rightarrow> real option) \<Rightarrow> string list \<Rightarrow> dict \<Rightarrow> exn + dict" where
  "clamp_criteria s2f [] result = Inr result"
| "clamp_criteria s2f (criterion # cs) result =
     (case map_of result criterion of
        None \<Rightarrow> clamp_criteria s2f cs (AList.update criterion (JNum 0) result)
      | Some v \<Rightarrow>
          (case py_float s2f v of
             Inl e \<Rightarrow> Inl e
           | Inr r \<Rightarrow> clamp_criteria s2f cs
                        (AList.update criterion (JNum (max 0 (min 5 r))) result)))"

definition clamp_confidence :: "(string \<Rightarrow> real option) \<Rightarrow> dict \<Rightarrow> exn + dict" where
  "clamp_confidence s2f result =
     (case map_of result ''confidence'' of
        None \<Rightarrow> Inr (AList.update ''confidence'' (JNum (5 / 10)) result)
      | Some v \<Rightarrow>
          (case py_float s2f v of
             Inl e \<Rightarrow> Inl e
           | Inr r \<Rightarrow> Inr (AList.update ''confidence'' (JNum (max 0 (min 1 r))) result)))"

definition weight :: "string \<Rightarrow> real" where
  "weight criterion = (case map_of CRITERIA_WEIGHTS criterion of Some w \<Rightarrow> w | None \<Rightarrow> 0)"

definition criterion_value :: "dict \<Rightarrow> string \<Rightarrow> real" where
  "criterion_value result criterion =
     (case map_of result criterion of
        Some v \<Rightarrow> (case num_val v of Some r \<Rightarrow> r | None \<Rightarrow> 0)
      | None \<Rightarrow> 0)"

definition aggregate :: "dict \<Rightarrow> real" where
  "aggregate result =
     sum_list (map (\<lambda>criterion. criterion_value result criterion * weight criterion * 20) CRITERIA)"

definition validate_and_aggregate :: "(string \<Rightarrow> real option) \<Rightarrow> dict \<Rightarrow> exn + dict" where
  "validate_and_aggregate s2f result =
     (case clamp_criteria s2f CRITERIA result of
        Inl e \<Rightarrow> Inl e
      | Inr r1 \<Rightarrow>
          (case clamp_confidence s2f r1 of
             Inl e \<Rightarrow> Inl e
           | Inr r2 \<Rightarrow> Inr (AList.update ''aggregate_score'' (JNum (aggregate r2)) r2)))"

section \<open>The scorer: cache store and oracle client\<close>

text \<open>
  What the scorer is given from outside: the model name, the SHA-256 hex digest of
  \<^verbatim>\<open>hashlib\<close>, the float parser, the rendering \<^verbatim>\<open>str(e)\<close> of an exception,
  the chat-completion call and \<^verbatim>\<open>json.loads\<close>. The client's answer may depend
  on how many calls were made before, so the oracle need not answer the same prompt the
  same way twice.
\<close>

record env =
  model :: string
  digest :: "string \<Rightarrow> string"
  str2float :: "string \<Rightarrow> real option"
  exn_str :: "exn \<Rightarrow> string"
  client :: "nat \<Rightarrow> string \<Rightarrow> exn + string"
  json_loads :: "string \<Rightarrow> exn + json"

text \<open>
  The state the scorer reads and writes: the cache directory, one verdict per key
  (file \<^verbatim>\<open><key>.json\<close>; writing and reading a file back is taken to return the
  verdict written), and the number of calls made to the oracle client so far.
\<close>

record scorer_state =
  cache :: "string \<rightharpoonup> dict"
  oracle_calls :: nat

definition cache_key :: "env \<Rightarrow> string \<Rightarrow> string \<Rightarrow> string" where
  "cache_key e paper_abstract review_text =
     digest e (model e @ ''|'' @ paper_abstract @ ''|'' @ review_text)"

definition user_prompt :: "string \<Rightarrow> string \<Rightarrow> string" where
  "user_prompt paper_abstract review_text =
     ''Paper Abstract:'' @ [CHR 0x0A] @ take 1000 paper_abstract @ [CHR 0x0A, CHR 0x0A] @
     ''Review to Evaluate:'' @ [CHR 0x0A] @ take 3000 review_text @ [CHR 0x0A, CHR 0x0A] @
     ''Evaluate this review using the rubric.''"

text \<open>
  The body of the \<^verbatim>\<open>try\<close> of \<^verbatim>\<open>score_review\<close> up to the aggregator, lines 141
  to 151: the \<open>n\<close>-th call of the client, the decoding of its content, the aggregator.
  A decoded value that is not a dict makes the aggregator's first assignment raise.
\<close>

definition oracle_attempt :: "env \<Rightarrow> nat \<Rightarrow> string \<Rightarrow> exn + dict" where
  "oracle_attempt e n prompt =
     (case client e n prompt of
        Inl x \<Rightarrow> Inl x
      | Inr content \<Rightarrow>
          (case json_loads e content of
             Inl x \<Rightarrow> Inl x
           | Inr (JObj result) \<Rightarrow> validate_and_aggregate (str2float e) result
           | Inr v \<Rightarrow> Inl (TypeError v)))"

text \<open>The verdict of the \<^verbatim>\<open>except\<close> branch, lines 160 to 167.\<close>

definition fallback :: "string \<Rightarrow> dict" where
  "fallback msg =
     map (\<lambda>c. (c, JNum 0)) CRITERIA @
     [(''justification'', JStr (''Error during scoring: '' @ msg)),
      (''confidence'', JNum 0),
      (''aggregate_score'', JNum 0),
      (''error'', JStr msg)]"

definition score_review ::
  "env \<Rightarrow> string \<Rightarrow> string \<Rightarrow> bool \<Rightarrow> scorer_state \<Rightarrow> dict \<times> scorer_state" where
  "score_review e paper_abstract review_text use_cache st =
     (case (if use_cache then cache st (cache_key e paper_abstract review_text) else None) of
        Some cached \<Rightarrow> (cached, st)
      | None \<Rightarrow>
          (let st1 = st\<lparr>oracle_calls := oracle_calls st + 1\<rparr> in
           case oracle_attempt e (oracle_calls st) (user_prompt paper_abstract review_text) of
             Inr score_data \<Rightarrow>
               (score_data,
                if use_cache
                then st1\<lparr>cache := (cache st1)(cache_key e paper_abstract review_text \<mapsto> score_data)\<rparr>
                else st1)
           | Inl x \<Rightarrow> (fallback (exn_str e x), st1)))"

text \<open>
  One entry of \<^verbatim>\<open>reviews_by_paper\<close>: the index of the response in the input list
  and its text. The entry's \<^verbatim>\<open>"synapse"\<close> is the response at that index.
\<close>

record paper_review =
  miner_uid :: nat
  text_of :: "string option"

definition empty_review_score :: dict where
  "empty_review_score =
     [(''aggregate_score'', JNum 0), (''confidence'', JNum 0), (''error'', JStr ''Empty review'')]"

definition no_text :: "paper_review \<Rightarrow> bool" where
  "no_text review = (text_of review = None \<or> text_of review = Some [])"

fun score_reviews_for_paper ::
  "env \<Rightarrow> string \<Rightarrow> paper_review list \<Rightarrow> scorer_state \<Rightarrow> dict list \<times> scorer_state" where
  "score_reviews_for_paper e paper_abstract [] st = ([], st)"
| "score_reviews_for_paper e paper_abstract (review # reviews) st =
     (if no_text review
      then (let (scores, st') = score_reviews_for_paper e paper_abstract reviews st
            in (empty_review_score # scores, st'))
      else (let (score, st1) = score_review e paper_abstract (the (text_of review)) True st;
                (scores, st2) = score_reviews_for_paper e paper_abstract reviews st1
            in (score # scores, st2)))"

section \<open>Grouping, ranking and normalisation\<close>

text \<open>
  A response (\<^verbatim>\<open>ReviewSubmission\<close> of \<^verbatim>\<open>template/protocol.py\<close>) with the
  fields the scorer reads and the two it fills, and a paper's entry of
  \<^verbatim>\<open>paper_metadata.json\<close> with the two keys the scorer reads (\<open>None\<close>: the key is
  absent; the preprocessor writes strings there).
\<close>

record synapse =
  paper_id :: "string option"
  review_text :: "string option"
  review_score :: "dict option"
  final_score :: "real option"

record paper_info =
  abstract :: "string option"
  title :: "string option"

text \<open>\<^verbatim>\<open>reviews_by_paper.setdefault(paper_id, []).append(review)\<close>\<close>

fun setdefault_append ::
  "string \<Rightarrow> paper_review \<Rightarrow> (string \<times> paper_review list) list \<Rightarrow> (string \<times> paper_review list) list" where
  "setdefault_append k r [] = [(k, [r])]"
| "setdefault_append k r ((k', rs) # groups) =
     (if k = k' then (k', rs @ [r]) # groups else (k', rs) # setdefault_append k r groups)"

definition reviews_by_paper :: "synapse list \<Rightarrow> (string \<times> paper_review list) list" where
  "reviews_by_paper responses =
     fold (\<lambda>(i, response) groups.
             case paper_id response of
               None \<Rightarrow> groups
             | Some p \<Rightarrow> setdefault_append p \<lparr>miner_uid = i, text_of = review_text response\<rparr> groups)
          (enumerate 0 responses) []"

text \<open>The context handed to the scorer for one paper, lines 240 to 245.\<close>

definition paper_context :: "(string \<rightharpoonup> paper_info) \<Rightarrow> string \<Rightarrow> string" where
  "paper_context paper_metadata pid =
     (let info = (case paper_metadata pid of
                    None \<Rightarrow> \<lparr>abstract = None, title = None\<rparr>
                  | Some i \<Rightarrow> i);
          a = (case abstract info of None \<Rightarrow> [] | Some a \<Rightarrow> a)
      in if a = []
         then (case title info of None \<Rightarrow> ''Unknown paper'' | Some t \<Rightarrow> t)
         else a)"

text \<open>
  \<^verbatim>\<open>s["aggregate_score"]\<close> and \<^verbatim>\<open>s.get("confidence", 1.0)\<close> as numbers. A value
  that is no number makes the arithmetic of line 258 raise.
\<close>

definition aggregate_score_of :: "dict \<Rightarrow> exn + real" where
  "aggregate_score_of s =
     (case map_of s ''aggregate_score'' of
        None \<Rightarrow> Inl (KeyError ''aggregate_score'')
      | Some v \<Rightarrow> (case num_val v of None \<Rightarrow> Inl (TypeError v) | Some r \<Rightarrow> Inr r))"

definition confidence_of :: "dict \<Rightarrow> exn + real" where
  "confidence_of s =
     (case map_of s ''confidence'' of
        None \<Rightarrow> Inr 1
      | Some v \<Rightarrow> (case num_val v of None \<Rightarrow> Inl (TypeError v) | Some r \<Rightarrow> Inr r))"

fun collect :: "('a \<Rightarrow> exn + 'b) \<Rightarrow> 'a list \<Rightarrow> exn + 'b list" where
  "collect f [] = Inr []"
| "collect f (x # xs) =
     (case f x of
        Inl e \<Rightarrow> Inl e
      | Inr y \<Rightarrow> (case collect f xs of Inl e \<Rightarrow> Inl e | Inr ys \<Rightarrow> Inr (y # ys)))"

definition reward_of :: "real \<Rightarrow> nat \<Rightarrow> real \<Rightarrow> real" where
  "reward_of base_score rank confidence = base_score * exp (- (1 / 2) * real rank) * confidence"

text \<open>
  The loop of lines 253 to 262 over \<^verbatim>\<open>enumerate(ranked_indices)\<close>, from rank
  \<open>rank\<close> on. It writes the reward into the vector and the verdict and the reward
  into the response, both at the submission's index. An index outside the group or the
  vector raises IndexError.
\<close>

fun rank_loop ::
  "paper_review list \<Rightarrow> dict list \<Rightarrow> nat \<Rightarrow> nat list \<Rightarrow> real list \<times> synapse list \<Rightarrow>
   exn + real list \<times> synapse list" where
  "rank_loop paper_reviews scores rank [] acc = Inr acc"
| "rank_loop paper_reviews scores rank (idx # idxs) (all_rewards, responses) =
     (if idx < length paper_reviews \<and> idx < length scores \<and>
         miner_uid (paper_reviews ! idx) < length all_rewards \<and>
         miner_uid (paper_reviews ! idx) < length responses
      then (case aggregate_score_of (scores ! idx) of
              Inl e \<Rightarrow> Inl e
            | Inr base_score \<Rightarrow>
                (case confidence_of (scores ! idx) of
                   Inl e \<Rightarrow> Inl e
                 | Inr confidence \<Rightarrow>
                     (let uid = miner_uid (paper_reviews ! idx);
                          reward = reward_of base_score rank confidence
                      in rank_loop paper_reviews scores (Suc rank) idxs
                           (all_rewards[uid := reward],
                            responses[uid := (responses ! uid)
                               \<lparr>review_score := Some (scores ! idx), final_score := Some reward\<rparr>]))))
      else Inl IndexError)"

text \<open>
  \<^verbatim>\<open>np.argsort\<close> is a parameter: numpy's default sort does not fix the order of
  equal keys. What is known of it is \<open>argsort_ok\<close>: the indices of the list, each once,
  in ascending order of their values.
\<close>

definition argsort_ok :: "(real list \<Rightarrow> nat list) \<Rightarrow> bool" where
  "argsort_ok argsort =
     (\<forall>xs. mset (argsort xs) = mset [0..<length xs] \<and> sorted (map (\<lambda>i. xs ! i) (argsort xs)))"

definition stable_argsort :: "real list \<Rightarrow> nat list" where
  "stable_argsort xs = sort_key (\<lambda>i. xs ! i) [0..<length xs]"

text \<open>The loop over the groups, lines 239 to 262.\<close>

fun score_groups ::
  "env \<Rightarrow> (real list \<Rightarrow> nat list) \<Rightarrow> (string \<rightharpoonup> paper_info) \<Rightarrow>
   (string \<times> paper_review list) list \<Rightarrow> scorer_state \<Rightarrow> real list \<times> synapse list \<Rightarrow>
   exn + (real list \<times> synapse list) \<times> scorer_state" where
  "score_groups e argsort paper_metadata [] st acc = Inr (acc, st)"
| "score_groups e argsort paper_metadata ((pid, paper_reviews) # groups) st acc =
     (let (scores, st1) =
            score_reviews_for_paper e (paper_context paper_metadata pid) paper_reviews st
      in case collect aggregate_score_of scores of
           Inl x \<Rightarrow> Inl x
         | Inr aggs \<Rightarrow>
             (case rank_loop paper_reviews scores 0 (rev (argsort aggs)) acc of
                Inl x \<Rightarrow> Inl x
              | Inr acc' \<Rightarrow> score_groups e argsort paper_metadata groups st1 acc'))"

text \<open>
  Lines 264 and 265. \<^verbatim>\<open>all_rewards.max()\<close> of an array of size zero raises
  ValueError.
\<close>

fun list_max :: "real list \<Rightarrow> real" where
  "list_max [] = 0"
| "list_max (x # xs) = fold max xs x"

definition normalize :: "real list \<Rightarrow> exn + real list" where
  "normalize all_rewards =
     (if all_rewards = []
      then Inl (ValueError ''zero-size array to reduction operation maximum which has no identity'')
      else if list_max all_rewards > 0
           then Inr (map (\<lambda>r. r / list_max all_rewards) all_rewards)
           else Inr all_rewards)"

record scored =
  rewards :: "real list"
  miner_uids :: "nat list"
  responses_of :: "synapse list"
  state_of :: scorer_state

definition score_reviews_grouped ::
  "env \<Rightarrow> (real list \<Rightarrow> nat list) \<Rightarrow> (string \<rightharpoonup> paper_info) \<Rightarrow> synapse list \<Rightarrow> scorer_state \<Rightarrow>
   exn + scored" where
  "score_reviews_grouped e argsort paper_metadata responses st =
     (case score_groups e argsort paper_metadata (reviews_by_paper responses) st
             (replicate (length responses) 0, responses) of
        Inl x \<Rightarrow> Inl x
      | Inr ((all_rewards, responses'), st') \<Rightarrow>
          (case normalize all_rewards of
             Inl x \<Rightarrow> Inl x
           | Inr normalized \<Rightarrow>
               Inr \<lparr>rewards = normalized, miner_uids = [0..<length responses],
                    responses_of = responses', state_of = st'\<rparr>))"

section \<open>Predicates used in the statements\<close>



text \<open>Inputs used to run the definitions.\<close>

definition plain_parser :: "string \<Rightarrow> real option" where
  "plain_parser s = (if s = ''5'' then Some 5 else None)"


definition partial_result :: dict where
  "partial_result =
     [(''comprehension'', JNum 7), (''confidence'', JNum 2), (''specificity'', JNum (- 3)),
      (''technical_depth'', JBool True), (''justification'', JStr ''ok'')]"

text \<open>
  Two oracles: one whose every call times out, one that always answers the empty object.
  Their digest is the identity, an injective stand-in for SHA-256.
\<close>

fun render_exn :: "exn \<Rightarrow> string" where
  "render_exn (OracleError m) = m"
| "render_exn (ValueError s) = ''could not convert string to float''"
| "render_exn (KeyError k) = k"
| "render_exn IndexError = ''index out of range''"
| "render_exn (TypeError v) = ''bad operand type''"

definition down_env :: env where
  "down_env = \<lparr>model = ''gpt-4.1-mini'', digest = (\<lambda>s. s), str2float = plain_parser,
     exn_str = render_exn, client = (\<lambda>n p. Inl (OracleError ''timeout'')),
     json_loads = (\<lambda>s. Inl (ValueError s))\<rparr>"

definition good_env :: env where
  "good_env = \<lparr>model = ''gpt-4.1-mini'', digest = (\<lambda>s. s), str2float = plain_parser,
     exn_str = render_exn, client = (\<lambda>n p. Inr ''{}''),
     json_loads = (\<lambda>s. Inr (JObj []))\<rparr>"

definition st0 :: scorer_state where
  "st0 = \<lparr>cache = Map.empty, oracle_calls = 0\<rparr>"

text \<open>A response that names no paper, and metadata for two papers.\<close>

definition lone_response :: synapse where
  "lone_response =
     \<lparr>paper_id = None, review_text = None, review_score = None, final_score = None\<rparr>"


section \<open>Properties of the aggregator\<close>






lemma clamp_confidence_value:
  "clamp_confidence s2f d = Inr v \<Longrightarrow>
   (case map_of d ''confidence'' of
      None \<Rightarrow> map_of v ''confidence'' = Some (JNum (5 / 10))
    | Some x \<Rightarrow> \<exists>r. py_float s2f x = Inr r \<and> map_of v ''confidence'' = Some (JNum (max 0 (min 1 r))))"
  by (auto simp: clamp_confidence_def update_conv' split: option.splits sum.splits)











lemmas agg_eval = validate_and_aggregate_def clamp_confidence_def CRITERIA_def aggregate_def
  criterion_value_def weight_def CRITERIA_WEIGHTS_def


lemma validate_empty:
  "validate_and_aggregate plain_parser [] =
     Inr [(''comprehension'', JNum 0), (''technical_depth'', JNum 0), (''specificity'', JNum 0),
          (''constructiveness'', JNum 0), (''evidence_based'', JNum 0),
          (''professionalism'', JNum 0), (''confidence'', JNum (5 / 10)),
          (''aggregate_score'', JNum 0)]"
  by (simp add: agg_eval plain_parser_def)


section \<open>When the aggregator returns\<close>





lemma validate_partial_result:
  "validate_and_aggregate plain_parser partial_result =
     Inr [(''comprehension'', JNum 5), (''confidence'', JNum 1), (''specificity'', JNum 0),
          (''technical_depth'', JNum 1), (''justification'', JStr ''ok''),
          (''constructiveness'', JNum 0), (''evidence_based'', JNum 0),
          (''professionalism'', JNum 0), (''aggregate_score'', JNum 25)]"
  by (simp add: agg_eval partial_result_def plain_parser_def)



section \<open>The oracle fails: the fallback verdict\<close>

lemma oracle_attempt_client_fails:
  "client e n p = Inl x \<Longrightarrow> oracle_attempt e n p = Inl x"
  by (simp add: oracle_attempt_def)

lemma oracle_attempt_unparseable:
  "client e n p = Inr content \<Longrightarrow> json_loads e content = Inl x \<Longrightarrow> oracle_attempt e n p = Inl x"
  by (simp add: oracle_attempt_def)



lemma down_attempt: "oracle_attempt down_env n p = Inl (OracleError ''timeout'')"
  by (simp add: oracle_attempt_def down_env_def)


section \<open>The cache round trip\<close>

text \<open>
  The claim as written fails when the oracle fails: the fallback is not cached, so the
  second call on the same texts calls the oracle again. Two calls, nothing cached.
\<close>

theorem failing_oracle_called_twice:
  "oracle_calls (snd (score_review down_env ''abstract'' ''review'' True
      (snd (score_review down_env ''abstract'' ''review'' True st0)))) = 2 \<and>
   cache (snd (score_review down_env ''abstract'' ''review'' True st0))
      (cache_key down_env ''abstract'' ''review'') = None"
  by (simp add: score_review_def down_attempt st0_def)

text \<open>
  C4, as the code has it. If the key is not in the cache and the attempt on the oracle
  yields a verdict, the first \<open>score_review\<close> returns that verdict, has called the
  oracle once and has stored the verdict under the key; a second call on the same
  context and text, with any oracle behind the same model name and digest, returns the
  stored verdict and leaves the state as it is: one oracle call for the two.
\<close>

theorem cache_round_trip:
  assumes "cache st (cache_key e ctx txt) = None"
      and "oracle_attempt e (oracle_calls st) (user_prompt ctx txt) = Inr v"
      and "model e' = model e" and "digest e' = digest e"
  shows "score_review e ctx txt True st =
           (v, st\<lparr>oracle_calls := oracle_calls st + 1,
                  cache := (cache st)(cache_key e ctx txt \<mapsto> v)\<rparr>) \<and>
         score_review e' ctx txt True
             (snd (score_review e ctx txt True st)) =
           (v, snd (score_review e ctx txt True st)) \<and>
         oracle_calls (snd (score_review e' ctx txt True
             (snd (score_review e ctx txt True st)))) = oracle_calls st + 1"
proof -
  have k: "cache_key e' ctx txt = cache_key e ctx txt"
    using assms(3,4) by (simp add: cache_key_def)
  have first: "score_review e ctx txt True st =
           (v, st\<lparr>oracle_calls := oracle_calls st + 1,
                  cache := (cache st)(cache_key e ctx txt \<mapsto> v)\<rparr>)"
    using assms(1,2) by (simp add: score_review_def)
  show ?thesis unfolding first by (simp add: score_review_def k)
qed

lemma good_attempt: "oracle_attempt good_env n p = validate_and_aggregate plain_parser []"
  by (simp add: oracle_attempt_def good_env_def)

theorem cache_round_trip_witness:
  "cache st0 (cache_key good_env ''abstract'' ''review'') = None \<and>
   (\<exists>v. oracle_attempt good_env (oracle_calls st0) (user_prompt ''abstract'' ''review'') = Inr v \<and>
     score_review down_env ''abstract'' ''review'' True
        (snd (score_review good_env ''abstract'' ''review'' True st0)) =
       (v, snd (score_review good_env ''abstract'' ''review'' True st0))) \<and>
   oracle_calls (snd (score_review down_env ''abstract'' ''review'' True
        (snd (score_review good_env ''abstract'' ''review'' True st0)))) = 1"
proof -
  have h1: "cache st0 (cache_key good_env ''abstract'' ''review'') = None"
    by (simp add: st0_def)
  obtain v where h2:
    "oracle_attempt good_env (oracle_calls st0) (user_prompt ''abstract'' ''review'') = Inr v"
    by (simp add: good_attempt validate_empty)
  have h3: "model down_env = model good_env" "digest down_env = digest good_env"
    by (simp_all add: down_env_def good_env_def)
  note r = cache_round_trip[OF h1 h2 h3]
  from r have c2: "score_review down_env ''abstract'' ''review'' True
        (snd (score_review good_env ''abstract'' ''review'' True st0)) =
       (v, snd (score_review good_env ''abstract'' ''review'' True st0))"
    by blast
  from r have "oracle_calls (snd (score_review down_env ''abstract'' ''review'' True
        (snd (score_review good_env ''abstract'' ''review'' True st0)))) = oracle_calls st0 + 1"
    by blast
  also have "oracle_calls st0 + 1 = 1" by (simp add: st0_def)
  finally have c3: "oracle_calls (snd (score_review down_env ''abstract'' ''review'' True
        (snd (score_review good_env ''abstract'' ''review'' True st0)))) = 1" .
  from h1 h2 c2 c3 show ?thesis by blast
qed

section \<open>Empty input\<close>

lemma reviews_by_paper_Nil: "reviews_by_paper [] = []"
  by (simp add: reviews_by_paper_def enumerate_eq_zip)

lemma normalize_Nil: "normalize [] = Inl (ValueError ''zero-size array to reduction operation maximum which has no identity'')"
  by (simp add: normalize_def)

lemma normalize_Inr: "xs \<noteq> [] \<Longrightarrow> \<exists>ys. normalize xs = Inr ys"
  by (simp add: normalize_def)

lemma normalize_Inr_iff: "(\<exists>ys. normalize xs = Inr ys) \<longleftrightarrow> xs \<noteq> []"
  by (auto simp: normalize_def)

lemma rank_loop_length:
  "rank_loop prs scores k idxs acc = Inr acc' \<Longrightarrow>
   length (fst acc') = length (fst acc) \<and> length (snd acc') = length (snd acc)"
proof (induction idxs arbitrary: k acc)
  case Nil
  then show ?case by simp
next
  case (Cons idx idxs)
  obtain rw rs where acc: "acc = (rw, rs)" by (cases acc)
  from Cons.prems show ?case
    unfolding acc
    by (auto simp: Let_def split: if_splits sum.splits dest!: Cons.IH)
qed

lemma score_groups_length:
  "score_groups e argsort md groups st acc = Inr (acc', st') \<Longrightarrow>
   length (fst acc') = length (fst acc) \<and> length (snd acc') = length (snd acc)"
proof (induction groups arbitrary: st acc)
  case Nil
  then show ?case by simp
next
  case (Cons g groups)
  obtain pid prs where g: "g = (pid, prs)" by (cases g)
  from Cons.prems show ?case
    unfolding g
    by (auto simp: Let_def split: prod.splits sum.splits dest!: Cons.IH rank_loop_length)
qed

text \<open>
  C10. On an empty list of responses \<open>score_reviews_grouped\<close> raises the ValueError of
  the maximum of an array of size zero; so whenever it returns, the list of responses was
  not empty.
\<close>

theorem grouped_empty_raises:
  "score_reviews_grouped e argsort md [] st =
     Inl (ValueError ''zero-size array to reduction operation maximum which has no identity'') \<and>
   (\<forall>r. score_reviews_grouped e argsort md responses st = Inr r \<longrightarrow> responses \<noteq> [])"
proof -
  have a: "score_reviews_grouped e argsort md [] st =
     Inl (ValueError ''zero-size array to reduction operation maximum which has no identity'')"
    by (simp add: score_reviews_grouped_def reviews_by_paper_Nil normalize_Nil)
  then show ?thesis by auto
qed

lemma grouped_lone:
  "score_reviews_grouped down_env stable_argsort Map.empty [lone_response] st0 =
     Inr \<lparr>rewards = [0], miner_uids = [0], responses_of = [lone_response], state_of = st0\<rparr>"
  by (simp add: score_reviews_grouped_def reviews_by_paper_def enumerate_eq_zip lone_response_def
      normalize_def)

theorem grouped_empty_raises_witness:
  "score_reviews_grouped down_env stable_argsort Map.empty [lone_response] st0 =
     Inr \<lparr>rewards = [0], miner_uids = [0], responses_of = [lone_response], state_of = st0\<rparr> \<and>
   [lone_response] \<noteq> [] \<and>
   score_reviews_grouped down_env stable_argsort Map.empty [] st0 =
     Inl (ValueError ''zero-size array to reduction operation maximum which has no identity'')"
  using grouped_empty_raises[of down_env stable_argsort Map.empty st0 "[lone_response]"] grouped_lone
  by blast

section \<open>The context of a group\<close>





end
